theory Spec2Isabelle
  imports Main "HOL-Library.Word" "HOL-Library.Multiset"
begin

unbundle bit_operations_syntax

section \<open>Credential hashing: \<open>hashPassword\<close>\<close>

text \<open>
  \<open>hashPassword\<close> (fileService.ts) encodes the password with \<open>TextEncoder\<close>, asks the
  Web Crypto API for the SHA-256 digest and prints every byte as two lower-case
  hexadecimal digits. A \<open>string\<close> stands for the UTF-8 bytes of the JavaScript string.
  SHA-256 itself is the browser's; it is written out here (FIPS 180-4) so that the model
  runs. The 32-bit rotation \<open>x >>> n | x << (32 - n)\<close> is \<open>rot (2^n) (2^(32-n)) x\<close>,
  and the shift \<open>x >>> n\<close> is \<open>x div 2^n\<close>, with the powers of two written as numerals.
  \<open>K256\<close> holds the first 32 bits of the fractional parts of the cube roots of the
  first 64 primes, \<open>H256\<close> those of the square roots of the first 8 primes, in decimal.
\<close>

type_synonym u8 = "8 word"
type_synonym u32 = "32 word"
type_synonym hstate = "u32 \<times> u32 \<times> u32 \<times> u32 \<times> u32 \<times> u32 \<times> u32 \<times> u32"

definition rot :: "u32 \<Rightarrow> u32 \<Rightarrow> u32 \<Rightarrow> u32" where
  "rot d m x = (x div d) OR (x * m)"

definition K256 :: "u32 list" where
  "K256 = [
  1116352408, 1899447441, 3049323471, 3921009573, 961987163, 1508970993, 2453635748, 2870763221,
  3624381080, 310598401, 607225278, 1426881987, 1925078388, 2162078206, 2614888103, 3248222580,
  3835390401, 4022224774, 264347078, 604807628, 770255983, 1249150122, 1555081692, 1996064986,
  2554220882, 2821834349, 2952996808, 3210313671, 3336571891, 3584528711, 113926993, 338241895,
  666307205, 773529912, 1294757372, 1396182291, 1695183700, 1986661051, 2177026350, 2456956037,
  2730485921, 2820302411, 3259730800, 3345764771, 3516065817, 3600352804, 4094571909, 275423344,
  430227734, 506948616, 659060556, 883997877, 958139571, 1322822218, 1537002063, 1747873779,
  1955562222, 2024104815, 2227730452, 2361852424, 2428436474, 2756734187, 3204031479, 3329325298]"

definition H256 :: hstate where
  "H256 = (1779033703, 3144134277, 1013904242, 2773480762,
           1359893119, 2600822924, 528734635, 1541459225)"

definition ssig0 :: "u32 \<Rightarrow> u32" where
  "ssig0 x = rot 128 33554432 x XOR rot 262144 16384 x XOR x div 8"

definition ssig1 :: "u32 \<Rightarrow> u32" where
  "ssig1 x = rot 131072 32768 x XOR rot 524288 8192 x XOR x div 1024"

definition bsig0 :: "u32 \<Rightarrow> u32" where
  "bsig0 x = rot 4 1073741824 x XOR rot 8192 524288 x XOR rot 4194304 1024 x"

definition bsig1 :: "u32 \<Rightarrow> u32" where
  "bsig1 x = rot 64 67108864 x XOR rot 2048 2097152 x XOR rot 33554432 128 x"

definition ch :: "u32 \<Rightarrow> u32 \<Rightarrow> u32 \<Rightarrow> u32" where
  "ch x y z = (x AND y) XOR (NOT x AND z)"

definition maj :: "u32 \<Rightarrow> u32 \<Rightarrow> u32 \<Rightarrow> u32" where
  "maj x y z = (x AND y) XOR (x AND z) XOR (y AND z)"

fun be_words :: "u8 list \<Rightarrow> u32 list" where
  "be_words (a # b # c # d # r) =
     (push_bit 24 (ucast a) OR push_bit 16 (ucast b) OR push_bit 8 (ucast c) OR ucast d)
       # be_words r"
| "be_words _ = []"

text \<open>The message schedule, newest word first: \<open>ws = [W(t-1), W(t-2), ...]\<close>.\<close>

fun extend :: "nat \<Rightarrow> u32 list \<Rightarrow> u32 list" where
  "extend 0 ws = ws"
| "extend (Suc n) ws =
     extend n ((ssig1 (ws ! 1) + ws ! 6 + ssig0 (ws ! 14) + ws ! 15) # ws)"

definition schedule :: "u32 list \<Rightarrow> u32 list" where
  "schedule blk = rev (extend 48 (rev blk))"

fun round256 :: "hstate \<Rightarrow> (u32 \<times> u32) \<Rightarrow> hstate" where
  "round256 (a, b, c, d, e, f, g, h) (k, w) =
     (let t1 = h + bsig1 e + ch e f g + k + w;
          t2 = bsig0 a + maj a b c
      in (t1 + t2, a, b, c, d + t1, e, f, g))"

fun add_state :: "hstate \<Rightarrow> hstate \<Rightarrow> hstate" where
  "add_state (a, b, c, d, e, f, g, h) (a', b', c', d', e', f', g', h') =
     (a + a', b + b', c + c', d + d', e + e', f + f', g + g', h + h')"

definition compress :: "hstate \<Rightarrow> u32 list \<Rightarrow> hstate" where
  "compress hs blk = add_state hs (foldl round256 hs (zip K256 (schedule blk)))"

fun state_words :: "hstate \<Rightarrow> u32 list" where
  "state_words (a, b, c, d, e, f, g, h) = [a, b, c, d, e, f, g, h]"

definition be_bytes32 :: "u32 \<Rightarrow> u8 list" where
  "be_bytes32 w = [ucast (drop_bit 24 w), ucast (drop_bit 16 w), ucast (drop_bit 8 w), ucast w]"

definition be_bytes64 :: "64 word \<Rightarrow> u8 list" where
  "be_bytes64 w = map (\<lambda>i. ucast (drop_bit (8 * i) w)) [7, 6, 5, 4, 3, 2, 1, 0]"

definition pad :: "u8 list \<Rightarrow> u8 list" where
  "pad m = m @ [0x80] @ replicate ((119 - length m mod 64) mod 64) 0
             @ be_bytes64 (of_nat (8 * length m))"

fun blocks :: "nat \<Rightarrow> u32 list \<Rightarrow> u32 list list" where
  "blocks 0 ws = []"
| "blocks (Suc n) ws = take 16 ws # blocks n (drop 16 ws)"

definition sha256 :: "u8 list \<Rightarrow> u8 list" where
  "sha256 m = (let ws = be_words (pad m)
               in concat (map be_bytes32
                    (state_words (foldl compress H256 (blocks (length ws div 16) ws)))))"

definition hexdigit :: "nat \<Rightarrow> char" where
  "hexdigit n = ''0123456789abcdef'' ! n"

definition hex2 :: "u8 \<Rightarrow> string" where
  "hex2 b = [hexdigit (unat (drop_bit 4 b)), hexdigit (unat (b AND 15))]"

definition hashPassword :: "string \<Rightarrow> string" where
  "hashPassword password = concat (map hex2 (sha256 (map (\<lambda>c. of_nat (of_char c)) password)))"


section \<open>The documents\<close>

text \<open>
  \<open>FileData\<close> is the interface of fileService.ts, a document of the collection
  \<open>files\<close>. An optional field (\<open>f?: T\<close>) is a \<open>T option\<close>, \<open>None\<close> when the document
  has no such field. Numbers are integers (byte counts and pixel sizes); a \<open>Date\<close> or
  Firestore \<open>Timestamp\<close> is its number of milliseconds since the epoch. The document
  id is not a field: it is the key under which the collection holds the document.
  The field \<open>size\<close> is called \<open>sizeBytes\<close> and \<open>type\<close> is \<open>mimeType\<close> here.
\<close>

record FileData =
  userId :: string
  name :: string
  displayName :: "string option"
  originalFilename :: "string option"
  sizeBytes :: int
  mimeType :: string
  fileType :: "string option"
  format :: "string option"
  url :: string
  secureUrl :: string
  publicId :: string
  assetId :: "string option"
  width :: "int option"
  height :: "int option"
  isPublic :: bool
  uploadedAt :: int
  updatedAt :: "int option"
  expiresAt :: "int option"
  resourceType :: "string option"
  sharedWith :: "string list option"
  isPasswordProtected :: "bool option"
  password :: "string option"

text \<open>
  \<open>UserProfile\<close> is the interface of userService.ts, a document of the collection
  \<open>users\<close>. Its \<open>displayName\<close> and \<open>updatedAt\<close> carry the prefix \<open>profile\<close>.
\<close>

record UserProfile =
  uid :: string
  email :: string
  profileDisplayName :: "string option"
  createdAt :: int
  profileUpdatedAt :: int
  totalStorage :: int
  usedStorage :: int
  files :: "string list"
  sharedFiles :: "string list"

text \<open>
  The requests sent to the blob store (Cloudinary) are kept in a log, so that
  "no transfer was started" is a property of the state.
\<close>

datatype blob_request = UploadRequest string string | DestroyRequest string

text \<open>
  The state the services work on: the two Firestore collections, in the order in which a
  query snapshot lists them, and the log of blob requests.
\<close>

record store =
  filesCol :: "(string \<times> FileData) list"
  usersCol :: "(string \<times> UserProfile) list"
  blobLog :: "blob_request list"

text \<open>Every \<open>throw new Error(...)\<close> of the two services, and the failures of the calls
  they await.\<close>

datatype error =
    UserProfileNotFound     \<comment> \<open>'User profile not found'\<close>
  | StorageQuotaExceeded    \<comment> \<open>'Storage quota exceeded'\<close>
  | FileNotFound            \<comment> \<open>'File not found'\<close>
  | Unauthorized            \<comment> \<open>'Unauthorized'\<close>
  | NoPermissionToShare     \<comment> \<open>'You do not have permission to share this file'\<close>
  | UploadFailed            \<comment> \<open>'Failed to upload file', or the rejected fetch\<close>
  | NetworkFailure          \<comment> \<open>a rejected \<open>fetch\<close> of the destroy request\<close>
  | NoDocumentToUpdate      \<comment> \<open>\<open>updateDoc\<close> on a document that does not exist\<close>
  | DateNotStorable         \<comment> \<open>a write with a \<open>Date\<close> that Firestore cannot store\<close>

type_synonym 'a result = "(error + 'a) \<times> store"


section \<open>The document store\<close>

definition getDoc :: "(string \<times> 'a) list \<Rightarrow> string \<Rightarrow> 'a option" where
  "getDoc col i = map_of col i"

text \<open>\<open>updateDoc\<close> changes the fields of an existing document and fails on a missing one.\<close>

definition updateDoc ::
  "(string \<times> 'a) list \<Rightarrow> string \<Rightarrow> ('a \<Rightarrow> 'a) \<Rightarrow> (string \<times> 'a) list option" where
  "updateDoc col i f =
     (case getDoc col i of
        None \<Rightarrow> None
      | Some _ \<Rightarrow> Some (map (\<lambda>(k, v). if k = i then (k, f v) else (k, v)) col))"

definition deleteDoc :: "(string \<times> 'a) list \<Rightarrow> string \<Rightarrow> (string \<times> 'a) list" where
  "deleteDoc col i = filter (\<lambda>(k, v). k \<noteq> i) col"

definition addDoc :: "(string \<times> 'a) list \<Rightarrow> string \<Rightarrow> 'a \<Rightarrow> (string \<times> 'a) list" where
  "addDoc col i v = col @ [(i, v)]"


section \<open>userService.ts\<close>

definition getUserProfile :: "store \<Rightarrow> string \<Rightarrow> UserProfile option" where
  "getUserProfile s u = getDoc (usersCol s) u"

definition updateUserProfile ::
  "int \<Rightarrow> string \<Rightarrow> (UserProfile \<Rightarrow> UserProfile) \<Rightarrow> store \<Rightarrow> unit result" where
  "updateUserProfile now u dat s =
     (case updateDoc (usersCol s) u (\<lambda>p. (dat p)\<lparr>profileUpdatedAt := now\<rparr>) of
        None \<Rightarrow> (Inl NoDocumentToUpdate, s)
      | Some us \<Rightarrow> (Inr (), s\<lparr>usersCol := us\<rparr>))"

definition updateUserStorage :: "int \<Rightarrow> string \<Rightarrow> int \<Rightarrow> bool \<Rightarrow> store \<Rightarrow> unit result" where
  "updateUserStorage now u fileSize isAddition s =
     (case getUserProfile s u of
        None \<Rightarrow> (Inl UserProfileNotFound, s)
      | Some userProfile \<Rightarrow>
          (let newUsedStorage =
                 (if isAddition then usedStorage userProfile + fileSize
                  else usedStorage userProfile - fileSize)
           in if newUsedStorage > totalStorage userProfile
              then (Inl StorageQuotaExceeded, s)
              else updateUserProfile now u (\<lambda>p. p\<lparr>usedStorage := newUsedStorage\<rparr>) s))"


section \<open>fileService.ts\<close>

text \<open>
  The browser's \<open>File\<close> handed to \<open>uploadFile\<close>, and the JSON that Cloudinary answers.
  A missing \<open>public_id\<close> or \<open>secure_url\<close> is the empty string, which JavaScript
  takes for false as well.
\<close>

record File =
  file_name :: string
  file_size :: int
  file_type :: string

record CloudinaryResponse =
  r_format :: "string option"
  r_url :: string
  r_secure_url :: string
  r_public_id :: string
  r_asset_id :: "string option"
  r_width :: "int option"
  r_height :: "int option"
  r_resource_type :: "string option"

datatype upload_outcome = UploadRejected | UploadAnswered CloudinaryResponse

datatype destroy_outcome = DestroyRejected | DestroyAnswered bool

text \<open>
  A JavaScript number: \<open>NaN\<close>, an infinity, or the finite value \<open>m * 2^e\<close>. Every
  finite double is \<open>Dyadic m e\<close> with \<open>\<bar>m\<bar> < 2^53\<close>; 1.5 is \<open>Dyadic 3 (-1)\<close>.
\<close>

datatype number = NaN | PlusInfinity | MinusInfinity | Dyadic int int

text \<open>
  The argument \<open>options.expiresIn\<close>: left out, \<open>null\<close>, or a number.
  \<open>truthy_number\<close> and \<open>truthy_string\<close> are JavaScript's \<open>if (x)\<close> on such a value:
  \<open>undefined\<close>, \<open>null\<close>, \<open>NaN\<close>, zero and the empty string are false.
\<close>

datatype expiresIn_arg = Undefined | Null | Number number

record Options =
  opt_expiresIn :: expiresIn_arg
  opt_password :: "string option"

fun truthy_number :: "expiresIn_arg \<Rightarrow> number option" where
  "truthy_number (Number NaN) = None"
| "truthy_number (Number (Dyadic m e)) = (if m = 0 then None else Some (Dyadic m e))"
| "truthy_number (Number x) = Some x"
| "truthy_number _ = None"

fun truthy_string :: "string option \<Rightarrow> string option" where
  "truthy_string (Some p) = (if p = [] then None else Some p)"
| "truthy_string None = None"

text \<open>\<open>options?.expiresIn\<close> and \<open>options?.password\<close> of an optional \<open>options\<close>.\<close>

definition expiresIn_of :: "Options option \<Rightarrow> expiresIn_arg" where
  "expiresIn_of options = (case options of None \<Rightarrow> Undefined | Some ops \<Rightarrow> opt_expiresIn ops)"

definition password_of :: "Options option \<Rightarrow> string option" where
  "password_of options = (case options of None \<Rightarrow> None | Some ops \<Rightarrow> opt_password ops)"

text \<open>
  The time zone of the machine the code runs on, as ECMAScript sees it: \<open>utcOffset t\<close>
  is the offset of local time from UTC at the instant \<open>t\<close>, \<open>localOffset l\<close> the
  offset by which the local time value \<open>l\<close> is read back into an instant (for a local
  time skipped or repeated by a change of offset, the offset before the change).
\<close>

record TimeZone =
  utcOffset :: "int \<Rightarrow> int"
  localOffset :: "int \<Rightarrow> int"

definition msPerHour :: int where
  "msPerHour = 3600000"

definition msPerDay :: int where
  "msPerDay = 86400000"

text \<open>\<open>d.getHours()\<close>: the hour of the day of \<open>t\<close> in local time.\<close>

definition getHours :: "TimeZone \<Rightarrow> int \<Rightarrow> int" where
  "getHours tz t = ((t + utcOffset tz t) div msPerHour) mod 24"

text \<open>
  \<open>d.setHours(h)\<close> for an integral \<open>h\<close>: the local day, minutes, seconds and
  milliseconds of \<open>t\<close> are kept, the hour field becomes \<open>h\<close> (which may be negative or
  beyond 23), and the local time so composed is read back into an instant.
\<close>

definition setHours :: "TimeZone \<Rightarrow> int \<Rightarrow> int \<Rightarrow> int" where
  "setHours tz t h =
     (let tl = t + utcOffset tz t;
          date = (tl div msPerDay) * msPerDay + h * msPerHour + tl mod msPerHour
      in date - localOffset tz date)"

text \<open>
  The argument of \<open>setHours\<close> is the double \<open>getHours() + expiresIn\<close>, truncated
  towards zero. \<open>bitlen\<close> counts binary digits; \<open>round53\<close> rounds an integer to 53
  significant bits, ties to even, as the addition of two doubles rounds its result.
  A sum that is not finite makes the date invalid (\<open>None\<close>).
\<close>

function bitlen :: "int \<Rightarrow> nat" where
  "bitlen n = (if n \<le> 0 then 0 else Suc (bitlen (n div 2)))"
  by pat_completeness auto
termination
  by (relation "measure nat") auto

declare bitlen.simps [simp del]

definition round53 :: "int \<Rightarrow> int" where
  "round53 N =
     (if \<bar>N\<bar> < 2 ^ 53 then N
      else
        (let u = 2 ^ (bitlen \<bar>N\<bar> - 53);
             q = \<bar>N\<bar> div u;
             r = \<bar>N\<bar> mod u;
             q' = (if 2 * r < u then q
                   else if 2 * r > u then q + 1
                   else if even q then q else q + 1)
         in sgn N * q' * u))"

fun hourArgument :: "int \<Rightarrow> number \<Rightarrow> int option" where
  "hourArgument H (Dyadic m e) =
     (if 0 \<le> e then Some (round53 (H + m * 2 ^ nat e))
      else
        (let k = nat (- e);
             N = round53 (H * 2 ^ k + m)
         in Some (sgn N * (\<bar>N\<bar> div 2 ^ k))))"
| "hourArgument H _ = None"

text \<open>
  Firestore stores a \<open>Date\<close> as a \<open>Timestamp\<close>, whose seconds lie between the years 1 and
  9999; a write with a date outside that range, or with an invalid date, throws.
\<close>

definition storableDate :: "int \<Rightarrow> bool" where
  "storableDate t = (- 62135596800 \<le> t div 1000 \<and> t div 1000 < 253402300800)"

text \<open>
  \<open>const d = new Date(); d.setHours(d.getHours() + expiresIn)\<close>: the date to store, or
  \<open>None\<close> when it is invalid or out of Firestore's range. \<open>now\<close> is the reading of the
  clock.
\<close>

definition hoursFromNow :: "TimeZone \<Rightarrow> int \<Rightarrow> number \<Rightarrow> int option" where
  "hoursFromNow tz now x =
     (case hourArgument (getHours tz now) x of
        None \<Rightarrow> None
      | Some h \<Rightarrow>
          (let d = setHours tz now h in if storableDate d then Some d else None))"

text \<open>
  \<open>uploadFile\<close>. \<open>answer\<close> is what Cloudinary does with the request, \<open>newId\<close> the id
  that \<open>addDoc\<close> gives the new document, \<open>now\<close> the clock, \<open>tz\<close> the time zone.
\<close>

definition uploadFile ::
  "TimeZone \<Rightarrow> upload_outcome \<Rightarrow> string \<Rightarrow> int \<Rightarrow> File \<Rightarrow> string \<Rightarrow> Options option
     \<Rightarrow> store \<Rightarrow> (string \<times> FileData) result" where
  "uploadFile tz answer newId now file u options s =
     (case getUserProfile s u of
        None \<Rightarrow> (Inl UserProfileNotFound, s)
      | Some userProfile \<Rightarrow>
          if usedStorage userProfile + file_size file > totalStorage userProfile
          then (Inl StorageQuotaExceeded, s)
          else
            (let s1 = s\<lparr>blobLog := blobLog s @ [UploadRequest (''ofss/'' @ u) (file_name file)]\<rparr>
             in case answer of
                  UploadRejected \<Rightarrow> (Inl UploadFailed, s1)
                | UploadAnswered response \<Rightarrow>
                    if r_public_id response = [] \<and> r_secure_url response = []
                    then (Inl UploadFailed, s1)
                    else
                      (let fileData0 = \<lparr>
                             userId = u,
                             name = file_name file,
                             displayName = Some (file_name file),
                             originalFilename = Some (file_name file),
                             sizeBytes = file_size file,
                             mimeType = file_type file,
                             fileType = Some (file_type file),
                             format = r_format response,
                             url = r_url response,
                             secureUrl = r_secure_url response,
                             publicId = r_public_id response,
                             assetId = r_asset_id response,
                             width = r_width response,
                             height = r_height response,
                             isPublic = False,
                             uploadedAt = now,
                             updatedAt = Some now,
                             expiresAt = None,
                             resourceType = r_resource_type response,
                             sharedWith = Some [],
                             isPasswordProtected = None,
                             password = None \<rparr>;
                           fileData1 =
                             (case truthy_string (password_of options) of
                                Some pw \<Rightarrow> fileData0\<lparr>isPasswordProtected := Some True,
                                                     password := Some (hashPassword pw)\<rparr>
                              | None \<Rightarrow> fileData0);
                           expiration =
                             (case truthy_number (expiresIn_of options) of
                                Some x \<Rightarrow> map_option Some (hoursFromNow tz now x)
                              | None \<Rightarrow> Some None)
                       in case expiration of
                            None \<Rightarrow> (Inl DateNotStorable, s1)
                          | Some e \<Rightarrow>
                              (let fileData = (case e of
                                       Some t \<Rightarrow> fileData1\<lparr>expiresAt := Some t\<rparr>
                                     | None \<Rightarrow> fileData1);
                                   s2 = s1\<lparr>filesCol := addDoc (filesCol s1) newId fileData\<rparr>
                               in case updateUserStorage now u (file_size file) True s2 of
                                    (Inl e, s3) \<Rightarrow> (Inl e, s3)
                                  | (Inr _, s3) \<Rightarrow> (Inr (newId, fileData), s3)))))"

text \<open>
  \<open>getUserFiles\<close>: the owner's documents, without those whose \<open>expiresAt\<close> is not
  after \<open>now\<close>, newest upload first. \<open>Array.prototype.sort\<close> is stable; so is
  \<open>sort_key\<close>, and sorting by \<open>timeB - timeA\<close> is sorting by the negated time.
\<close>

definition getUserFiles :: "int \<Rightarrow> string \<Rightarrow> store \<Rightarrow> (string \<times> FileData) list" where
  "getUserFiles now u s =
     (let files = filter (\<lambda>(i, d). userId d = u) (filesCol s);
          validFiles = filter (\<lambda>(i, file).
                         case expiresAt file of None \<Rightarrow> True | Some e \<Rightarrow> e > now) files
      in sort_key (\<lambda>(i, file). - uploadedAt file) validFiles)"

text \<open>
  \<open>deleteFile\<close>. \<open>destroy\<close> is what Cloudinary does with the destroy request for a
  public id: the fetch is rejected, or it is answered (the answer is only logged).
\<close>

definition deleteFile ::
  "(string \<Rightarrow> destroy_outcome) \<Rightarrow> int \<Rightarrow> string \<Rightarrow> string \<Rightarrow> store \<Rightarrow> unit result" where
  "deleteFile destroy now fileId u s =
     (case getDoc (filesCol s) fileId of
        None \<Rightarrow> (Inl FileNotFound, s)
      | Some fileData \<Rightarrow>
          if userId fileData \<noteq> u then (Inl Unauthorized, s)
          else
            (let s1 = s\<lparr>blobLog := blobLog s @ [DestroyRequest (publicId fileData)]\<rparr>
             in case destroy (publicId fileData) of
                  DestroyRejected \<Rightarrow> (Inl NetworkFailure, s1)
                | DestroyAnswered _ \<Rightarrow>
                    (case updateDoc (usersCol s1) u
                            (\<lambda>p. p\<lparr>files := removeAll fileId (files p),
                                   profileUpdatedAt := now\<rparr>) of
                       None \<Rightarrow> (Inl NoDocumentToUpdate, s1)
                     | Some us \<Rightarrow>
                         (case updateUserStorage now u (sizeBytes fileData) False
                                 (s1\<lparr>usersCol := us\<rparr>) of
                            (Inl e, s3) \<Rightarrow> (Inl e, s3)
                          | (Inr _, s3) \<Rightarrow>
                              (Inr (), s3\<lparr>filesCol := deleteDoc (filesCol s3) fileId\<rparr>)))))"

text \<open>
  \<open>generateShareableLink\<close>. The update sets \<open>isPublic\<close>, then the expiration, then the
  password, as \<open>updateData\<close> is filled; \<open>updateDoc\<close> throws on an expiration it cannot
  store. \<open>origin\<close> is \<open>window.location.origin\<close>.
\<close>

definition generateShareableLink ::
  "TimeZone \<Rightarrow> string \<Rightarrow> int \<Rightarrow> string \<Rightarrow> string \<Rightarrow> Options option \<Rightarrow> store
     \<Rightarrow> string result" where
  "generateShareableLink tz origin now fileId u options s =
     (case getDoc (filesCol s) fileId of
        None \<Rightarrow> (Inl FileNotFound, s)
      | Some fileData \<Rightarrow>
          if userId fileData \<noteq> u then (Inl NoPermissionToShare, s)
          else
            (let setPublic = (\<lambda>d. d\<lparr>isPublic := True\<rparr>);
                 setExpiry =
                   (case truthy_number (expiresIn_of options) of
                      Some x \<Rightarrow>
                        map_option (\<lambda>t. (\<lambda>d. d\<lparr>expiresAt := Some t\<rparr>)) (hoursFromNow tz now x)
                    | None \<Rightarrow>
                        Some (if expiresIn_of options = Null
                              then (\<lambda>d. d\<lparr>expiresAt := None\<rparr>)
                              else (\<lambda>d. d)));
                 setPassword =
                   (case truthy_string (password_of options) of
                      Some pw \<Rightarrow> (\<lambda>d. d\<lparr>isPasswordProtected := Some True,
                                         password := Some (hashPassword pw)\<rparr>)
                    | None \<Rightarrow> (\<lambda>d. d))
             in case setExpiry of
                  None \<Rightarrow> (Inl DateNotStorable, s)
                | Some setExp \<Rightarrow>
                    (case updateDoc (filesCol s) fileId (\<lambda>d. setPassword (setExp (setPublic d))) of
                       None \<Rightarrow> (Inl NoDocumentToUpdate, s)
                     | Some fs \<Rightarrow>
                         (Inr (origin @ ''/files/'' @ fileId), s\<lparr>filesCol := fs\<rparr>))))"

text \<open>
  \<open>verifyFilePassword\<close>: the \<open>catch\<close> turns the 'File not found' error into \<open>false\<close>.
  \<open>!fileData.isPasswordProtected\<close> holds for a missing field and for \<open>false\<close>.
\<close>

definition verifyFilePassword :: "store \<Rightarrow> string \<Rightarrow> string \<Rightarrow> bool" where
  "verifyFilePassword s fileId pw =
     (case getDoc (filesCol s) fileId of
        None \<Rightarrow> False
      | Some fileData \<Rightarrow>
          if isPasswordProtected fileData \<noteq> Some True then True
          else password fileData = Some (hashPassword pw))"

text \<open>\<open>getPublicFile\<close>: \<open>null\<close> is \<open>None\<close>; the record comes back with its id.\<close>

definition getPublicFile :: "int \<Rightarrow> string \<Rightarrow> store \<Rightarrow> (string \<times> FileData) option" where
  "getPublicFile now fileId s =
     (case getDoc (filesCol s) fileId of
        None \<Rightarrow> None
      | Some fileData \<Rightarrow>
          if \<not> isPublic fileData then None
          else
            (case expiresAt fileData of
               Some expirationDate \<Rightarrow>
                 if now > expirationDate then None else Some (fileId, fileData)
             | None \<Rightarrow> Some (fileId, fileData)))"

text \<open>
  \<open>cleanupExpiredFiles\<close>. The snapshot is taken once; every document in it is handed to
  \<open>deleteFile\<close> with its own \<open>userId\<close>, unless that is empty; the \<open>catch\<close> around each
  delete drops its error and keeps what the delete had already written. The code starts
  all deletes together (\<open>Promise.all\<close>); here they run one after the other, in the order
  of the snapshot, which is one of the possible runs: with two swept records of one owner
  an interleaved run can leave another \<open>usedStorage\<close>, nothing else differs. The result
  is \<open>querySnapshot.size\<close>.
\<close>

definition expiredFilesQuery :: "int \<Rightarrow> store \<Rightarrow> (string \<times> FileData) list" where
  "expiredFilesQuery now s =
     filter (\<lambda>(i, d). (case expiresAt d of None \<Rightarrow> False | Some e \<Rightarrow> e < now) \<and> isPublic d)
       (filesCol s)"

definition deleteSnapshotDoc ::
  "(string \<Rightarrow> destroy_outcome) \<Rightarrow> int \<Rightarrow> store \<Rightarrow> (string \<times> FileData) \<Rightarrow> store" where
  "deleteSnapshotDoc destroy now s doc =
     (if userId (snd doc) \<noteq> [] then snd (deleteFile destroy now (fst doc) (userId (snd doc)) s)
      else s)"

definition cleanupExpiredFiles ::
  "(string \<Rightarrow> destroy_outcome) \<Rightarrow> int \<Rightarrow> store \<Rightarrow> nat \<times> store" where
  "cleanupExpiredFiles destroy now s =
     (let querySnapshot = expiredFilesQuery now s
      in (length querySnapshot, foldl (deleteSnapshotDoc destroy now) s querySnapshot))"




section \<open>Example data\<close>

definition report :: FileData where
  "report = \<lparr>
     userId = ''alice'', name = ''report.pdf'', displayName = Some ''report.pdf'',
     originalFilename = Some ''report.pdf'', sizeBytes = 600, mimeType = ''application/pdf'',
     fileType = Some ''application/pdf'', format = Some ''pdf'',
     url = ''http://res.cloudinary.com/ofss/alice/report'',
     secureUrl = ''https://res.cloudinary.com/ofss/alice/report'',
     publicId = ''ofss/alice/report'', assetId = None, width = None, height = None,
     isPublic = False, uploadedAt = 1000, updatedAt = Some 1000, expiresAt = None,
     resourceType = Some ''raw'', sharedWith = Some [], isPasswordProtected = None,
     password = None \<rparr>"

definition alice :: UserProfile where
  "alice = \<lparr> uid = ''alice'', email = ''alice@example.org'', profileDisplayName = None,
     createdAt = 0, profileUpdatedAt = 1000, totalStorage = 1000, usedStorage = 600,
     files = [''f1''], sharedFiles = [] \<rparr>"

definition store_with :: "(string \<times> FileData) list \<Rightarrow> store" where
  "store_with fs = \<lparr> filesCol = fs, usersCol = [(''alice'', alice)], blobLog = [] \<rparr>"

text \<open>The SHA-256 digest of \<open>secret\<close>, in hexadecimal.\<close>

definition secret_hash :: string where
  "secret_hash = ''2bb80d537b1da3e38bd30361aa855686bde0eacd7162fef6a25fe97bf527a25b''"

definition protected_report :: FileData where
  "protected_report = report\<lparr>isPublic := True, isPasswordProtected := Some True,
                              password := Some secret_hash\<rparr>"

definition password_only :: "string \<Rightarrow> Options option" where
  "password_only pw = Some \<lparr> opt_expiresIn = Undefined, opt_password = Some pw \<rparr>"

definition expiry_only :: "expiresIn_arg \<Rightarrow> Options option" where
  "expiry_only x = Some \<lparr> opt_expiresIn = x, opt_password = None \<rparr>"

text \<open>A machine on UTC, and one on Central European time around the change to summer
  time of 29 March 2026, 01:00 UTC (1774746000000), when local clocks go from 02:00 to
  03:00.\<close>

definition utc :: TimeZone where
  "utc = \<lparr> utcOffset = (\<lambda>t. 0), localOffset = (\<lambda>l. 0) \<rparr>"

definition central_europe :: TimeZone where
  "central_europe = \<lparr>
     utcOffset = (\<lambda>t. if t < 1774746000000 then 3600000 else 7200000),
     localOffset = (\<lambda>l. if l < 1774753200000 then 3600000 else 7200000) \<rparr>"

definition big_file :: File where
  "big_file = \<lparr> file_name = ''big.bin'', file_size = 500,
                 file_type = ''application/octet-stream'' \<rparr>"

text \<open>Cloudinary out of reach (every fetch is rejected), and Cloudinary answering.\<close>

definition offline :: "string \<Rightarrow> destroy_outcome" where
  "offline pid = DestroyRejected"

definition online :: "string \<Rightarrow> destroy_outcome" where
  "online pid = DestroyAnswered True"

text \<open>Three files of one owner; only \<open>f2\<close> is public with an expiration before 2000.\<close>

definition three_files :: "(string \<times> FileData) list" where
  "three_files =
     [(''f1'', report\<lparr>sizeBytes := 300\<rparr>),
      (''f2'', report\<lparr>sizeBytes := 200, publicId := ''ofss/alice/notes'', isPublic := True,
                      expiresAt := Some 1500\<rparr>),
      (''f3'', report\<lparr>sizeBytes := 100, publicId := ''ofss/alice/photo'', isPublic := True,
                      expiresAt := Some 9000\<rparr>)]"

text \<open>Three uploads at different times; the private \<open>f2\<close> expired at 1500.\<close>

definition listing_files :: "(string \<times> FileData) list" where
  "listing_files =
     [(''f1'', report),
      (''f2'', report\<lparr>uploadedAt := 3000, expiresAt := Some 1500\<rparr>),
      (''f3'', report\<lparr>uploadedAt := 2500, isPublic := True, expiresAt := Some 9000\<rparr>)]"

lemmas example_defs = report_def alice_def store_with_def protected_report_def
  password_only_def expiry_only_def offline_def online_def three_files_def big_file_def
  listing_files_def utc_def central_europe_def

lemmas service_defs = getDoc_def updateDoc_def deleteDoc_def addDoc_def getUserProfile_def
  updateUserProfile_def updateUserStorage_def uploadFile_def getUserFiles_def deleteFile_def
  generateShareableLink_def verifyFilePassword_def getPublicFile_def expiredFilesQuery_def
  deleteSnapshotDoc_def cleanupExpiredFiles_def expiresIn_of_def password_of_def Let_def



section \<open>The document store: lookups after a write\<close>

lemma map_of_update_key:
  "map_of (map (\<lambda>(k, v). if k = i then (k, f v) else (k, v)) col) j
     = (if j = i then map_option f (map_of col i) else map_of col j)"
  by (induction col) auto

lemma getDoc_updateDoc:
  "updateDoc col i f = Some col' \<Longrightarrow>
   getDoc col' j = (if j = i then map_option f (getDoc col i) else getDoc col j)"
  unfolding updateDoc_def getDoc_def
  by (auto simp add: map_of_update_key split: option.splits)

lemma updateDoc_None: "(updateDoc col i f = None) = (getDoc col i = None)"
  unfolding updateDoc_def by (auto split: option.splits)





section \<open>Two digests\<close>

lemma hashPassword_secret: "hashPassword ''secret'' = secret_hash"
  by code_simp

lemma hashPassword_wrong:
  "hashPassword ''wrong'' = ''8810ad581e59f2bc3928b261707a71308f7e139eb04820366dc4d5c18d980225''"
  by code_simp


section \<open>Sharing: password protection\<close>

text \<open>
  C1. The claim: once \<open>isPasswordProtected\<close> is true, a \<open>generateShareableLink\<close> call of
  the owner with a password leaves the stored hash unchanged. The code does not look at
  the stored flag: on a file protected with the digest of \<open>secret\<close>, the owner's call
  with the password \<open>wrong\<close> stores the digest of \<open>wrong\<close>; \<open>secret\<close> verified before
  the call and no longer verifies after it.
\<close>

theorem generateShareableLink_overwrites_hash:
  "map_option password (getDoc (filesCol (store_with [(''f1'', protected_report)])) ''f1'')
     = Some (Some ''2bb80d537b1da3e38bd30361aa855686bde0eacd7162fef6a25fe97bf527a25b'')
   \<and> map_option password
        (getDoc (filesCol (snd (generateShareableLink utc ''https://ofss.example'' 2000 ''f1'' ''alice''
                                  (password_only ''wrong'') (store_with [(''f1'', protected_report)]))))
           ''f1'')
     = Some (Some ''8810ad581e59f2bc3928b261707a71308f7e139eb04820366dc4d5c18d980225'')
   \<and> verifyFilePassword (store_with [(''f1'', protected_report)]) ''f1'' ''secret''
   \<and> \<not> verifyFilePassword
          (snd (generateShareableLink utc ''https://ofss.example'' 2000 ''f1'' ''alice''
                  (password_only ''wrong'') (store_with [(''f1'', protected_report)])))
          ''f1'' ''secret''"
  by (simp add: example_defs service_defs hashPassword_secret hashPassword_wrong secret_hash_def)


section \<open>The quota ledger\<close>

text \<open>
  C2, as amended. A release (\<open>updateUserStorage\<close> with \<open>isAddition = false\<close>) for a user
  with a profile computes the previous \<open>usedStorage\<close> minus the released bytes and does
  not clamp it. When the difference exceeds \<open>totalStorage\<close> it is rejected with
  'Storage quota exceeded' and the store is unchanged; otherwise exactly the difference
  is stored, and files and blob log are untouched. So \<open>usedStorage \<le> totalStorage\<close>
  holds after every successful release, and \<open>0 \<le> usedStorage\<close> holds after it exactly
  when the released amount does not exceed the recorded usage.
\<close>

theorem updateUserStorage_release:
  assumes "getUserProfile s u = Some p"
  shows "(usedStorage p - n > totalStorage p \<longrightarrow>
            updateUserStorage now u n False s = (Inl StorageQuotaExceeded, s))
       \<and> (usedStorage p - n \<le> totalStorage p \<longrightarrow>
            fst (updateUserStorage now u n False s) = Inr ()
          \<and> getUserProfile (snd (updateUserStorage now u n False s)) u
              = Some (p\<lparr>usedStorage := usedStorage p - n, profileUpdatedAt := now\<rparr>)
          \<and> filesCol (snd (updateUserStorage now u n False s)) = filesCol s
          \<and> blobLog (snd (updateUserStorage now u n False s)) = blobLog s
          \<and> (\<forall>p'. getUserProfile (snd (updateUserStorage now u n False s)) u = Some p' \<longrightarrow>
                 usedStorage p' \<le> totalStorage p'
               \<and> (0 \<le> usedStorage p') = (n \<le> usedStorage p)))"
proof -
  obtain us where us: "updateDoc (usersCol s) u
      (\<lambda>q. (q\<lparr>usedStorage := usedStorage p - n\<rparr>)\<lparr>profileUpdatedAt := now\<rparr>) = Some us"
    using assms updateDoc_None [of "usersCol s" u] by (fastforce simp: getUserProfile_def)
  have "getDoc us u = Some (p\<lparr>usedStorage := usedStorage p - n, profileUpdatedAt := now\<rparr>)"
    using getDoc_updateDoc [OF us, of u] assms by (simp add: getUserProfile_def)
  then show ?thesis
    using assms us
    by (auto simp add: updateUserStorage_def updateUserProfile_def getUserProfile_def Let_def)
qed

theorem updateUserStorage_release_witness:
  "getUserProfile (store_with []) ''alice'' = Some alice
   \<and> updateUserStorage 2000 ''alice'' (- 500) False (store_with [])
       = (Inl StorageQuotaExceeded, store_with [])
   \<and> fst (updateUserStorage 2000 ''alice'' 600 False (store_with [])) = Inr ()
   \<and> getUserProfile (snd (updateUserStorage 2000 ''alice'' 600 False (store_with []))) ''alice''
       = Some (alice\<lparr>usedStorage := 0, profileUpdatedAt := 2000\<rparr>)"
  using updateUserStorage_release [of "store_with []" "''alice''" alice "- 500" 2000]
    updateUserStorage_release [of "store_with []" "''alice''" alice 600 2000]
  by (simp add: example_defs getUserProfile_def getDoc_def)

text \<open>
  The claim as stated fails: releasing 700 bytes from a recorded usage of 600 succeeds
  and leaves \<open>usedStorage = -100\<close>, not 0.
\<close>

theorem release_not_clamped_counterexample:
  "fst (updateUserStorage 2000 ''alice'' 700 False (store_with [])) = Inr ()
   \<and> map_option usedStorage
        (getUserProfile (snd (updateUserStorage 2000 ''alice'' 700 False (store_with []))) ''alice'')
       = Some (- 100)"
  by (simp add: example_defs service_defs)

text \<open>
  C7. When the owner has a profile and \<open>usedStorage + file.size > totalStorage\<close>,
  \<open>uploadFile\<close> is rejected with 'Storage quota exceeded' and returns the store it was
  given: ledger, file records and the log of blob requests are unchanged, whatever
  Cloudinary would have answered, in every time zone.
\<close>

theorem uploadFile_quota_fails_closed:
  assumes "getUserProfile s u = Some p"
    and "usedStorage p + file_size file > totalStorage p"
  shows "uploadFile tz answer newId now file u options s = (Inl StorageQuotaExceeded, s)"
  using assms by (simp add: uploadFile_def)

theorem uploadFile_quota_fails_closed_witness:
  "getUserProfile (store_with []) ''alice'' = Some alice
   \<and> usedStorage alice + file_size big_file > totalStorage alice
   \<and> uploadFile utc UploadRejected ''f9'' 2000 big_file ''alice'' None (store_with [])
       = (Inl StorageQuotaExceeded, store_with [])"
  using uploadFile_quota_fails_closed [of "store_with []" "''alice''" alice big_file
      utc UploadRejected "''f9''" 2000 None]
  by (simp add: example_defs getUserProfile_def getDoc_def)


section \<open>Sharing: expiration and the public gate\<close>

text \<open>
  For a file of the caller, \<open>generateShareableLink\<close> returns the link; the stored
  record has no \<open>expiresAt\<close> field when \<open>expiresIn\<close> is \<open>null\<close>, and keeps its
  \<open>expiresAt\<close> when \<open>expiresIn\<close> is left out.
\<close>

lemma generateShareableLink_null_or_omitted:
  assumes "getDoc (filesCol s) fileId = Some fd" and "userId fd = u"
    and "expiresIn_of options = Null \<or> expiresIn_of options = Undefined"
  shows "fst (generateShareableLink tz origin now fileId u options s)
           = Inr (origin @ ''/files/'' @ fileId)
       \<and> map_option expiresAt
            (getDoc (filesCol (snd (generateShareableLink tz origin now fileId u options s))) fileId)
           = Some (if expiresIn_of options = Null then None else expiresAt fd)"
proof -
  define upd :: "FileData \<Rightarrow> FileData" where
    "upd = (\<lambda>d. (case truthy_string (password_of options) of
                      Some pw \<Rightarrow> (\<lambda>d. d\<lparr>isPasswordProtected := Some True,
                                         password := Some (hashPassword pw)\<rparr>)
                    | None \<Rightarrow> (\<lambda>d. d))
                 ((if expiresIn_of options = Null
                   then (\<lambda>d. d\<lparr>expiresAt := None\<rparr>)
                   else (\<lambda>d. d))
                  (d\<lparr>isPublic := True\<rparr>)))"
  obtain fs where fs: "updateDoc (filesCol s) fileId upd = Some fs"
    using assms updateDoc_None [of "filesCol s" fileId upd] by fastforce
  have g: "getDoc fs fileId = Some (upd fd)"
    using getDoc_updateDoc [OF fs, of fileId] assms by simp
  have r: "generateShareableLink tz origin now fileId u options s
            = (Inr (origin @ ''/files/'' @ fileId), s\<lparr>filesCol := fs\<rparr>)"
    using assms fs by (auto simp add: generateShareableLink_def upd_def Let_def)
  show ?thesis
    unfolding r using g assms(3)
    by (auto simp add: upd_def split: option.splits)
qed

text \<open>
  On a machine whose offset from UTC never changes, \<open>setHours\<close> with the current hour
  plus a whole number \<open>n\<close> is the instant \<open>n\<close> hours later, and a whole number of
  hours below \<open>2^52\<close> is added to the hour without rounding.
\<close>

lemma setHours_fixed_offset:
  assumes "utcOffset tz = (\<lambda>t. c)" and "localOffset tz = (\<lambda>l. c)"
  shows "setHours tz t (getHours tz t + n) = t + n * msPerHour"
proof -
  define tl where "tl = t + c"
  define a where "a = tl div 3600000"
  have d: "tl div 86400000 = a div 24"
    unfolding a_def by (simp add: div_mult2_eq)
  have 1: "a * 3600000 + tl mod 3600000 = tl"
    unfolding a_def by simp
  have 2: "a div 24 * 24 + a mod 24 = a"
    by (rule div_mult_mod_eq)
  have 3: "x * 86400000 + (y + n) * 3600000 + z = (x * 24 + y) * 3600000 + z + n * 3600000"
    for x y z :: int
    by (simp add: algebra_simps)
  have "a div 24 * 86400000 + (a mod 24 + n) * 3600000 + tl mod 3600000 = tl + n * 3600000"
    unfolding 3 2 1 ..
  then show ?thesis
    using assms d
    by (simp add: setHours_def getHours_def msPerHour_def msPerDay_def Let_def tl_def a_def)
qed

lemma hourArgument_whole:
  assumes "\<bar>H + n\<bar> < 2 ^ 53"
  shows "hourArgument H (Dyadic n 0) = Some (H + n)"
  using assms by (simp add: round53_def)

lemma generateShareableLink_whole_hours:
  assumes "getDoc (filesCol s) fileId = Some fd" and "userId fd = u"
    and "utcOffset tz = (\<lambda>t. c)" and "localOffset tz = (\<lambda>l. c)"
    and "expiresIn_of options = Number (Dyadic n 0)" and "n \<noteq> 0" and "\<bar>n\<bar> < 2 ^ 52"
    and "storableDate (now + n * 3600000)"
  shows "map_option expiresAt
            (getDoc (filesCol (snd (generateShareableLink tz origin now fileId u options s))) fileId)
           = Some (Some (now + n * 3600000))"
proof -
  have H: "0 \<le> getHours tz now" "getHours tz now < 24"
    by (simp_all add: getHours_def)
  then have "\<bar>getHours tz now + n\<bar> < 2 ^ 53"
    using assms(7) by simp
  then have h: "hoursFromNow tz now (Dyadic n 0) = Some (now + n * 3600000)"
    using setHours_fixed_offset [OF assms(3,4), of now n] assms(8)
    by (simp add: hoursFromNow_def hourArgument_whole msPerHour_def Let_def
        del: hourArgument.simps)
  define upd :: "FileData \<Rightarrow> FileData" where
    "upd = (\<lambda>d. (case truthy_string (password_of options) of
                      Some pw \<Rightarrow> (\<lambda>d. d\<lparr>isPasswordProtected := Some True,
                                         password := Some (hashPassword pw)\<rparr>)
                    | None \<Rightarrow> (\<lambda>d. d))
                 (d\<lparr>isPublic := True, expiresAt := Some (now + n * 3600000)\<rparr>))"
  obtain fs where fs: "updateDoc (filesCol s) fileId upd = Some fs"
    using assms updateDoc_None [of "filesCol s" fileId upd] by fastforce
  have g: "getDoc fs fileId = Some (upd fd)"
    using getDoc_updateDoc [OF fs, of fileId] assms by simp
  have r: "generateShareableLink tz origin now fileId u options s
            = (Inr (origin @ ''/files/'' @ fileId), s\<lparr>filesCol := fs\<rparr>)"
    using assms(1,2,5,6) fs h by (simp add: generateShareableLink_def upd_def Let_def)
  show ?thesis
    unfolding r using g
    by (auto simp add: upd_def split: option.splits)
qed

text \<open>
  C6. The claim: with a positive \<open>expiresIn\<close> the stored \<open>expiresAt\<close> is \<open>now\<close> plus
  that many hours. The code writes \<open>setHours(getHours() + expiresIn)\<close>, which drops
  the fraction of the hour and counts on the local clock. On a machine on UTC at
  2026-01-15 10:30 (1768473000000), \<open>expiresIn = 1.5\<close> stores the instant one hour
  later, not ninety minutes later. On a machine on Central European time at 01:30 in
  the night of the change to summer time (00:30 UTC, 1774744200000), \<open>expiresIn = 2\<close>
  stores the instant one hour later, not two.
\<close>

theorem generateShareableLink_expiry_not_hours_later:
  "map_option expiresAt
     (getDoc (filesCol (snd (generateShareableLink utc ''https://ofss.example'' 1768473000000
        ''f1'' ''alice'' (expiry_only (Number (Dyadic 3 (- 1)))) (store_with [(''f1'', report)]))))
        ''f1'') = Some (Some (1768473000000 + 3600000))
   \<and> map_option expiresAt
     (getDoc (filesCol (snd (generateShareableLink central_europe ''https://ofss.example''
        1774744200000 ''f1'' ''alice'' (expiry_only (Number (Dyadic 2 0)))
        (store_with [(''f1'', report)])))) ''f1'') = Some (Some (1774744200000 + 3600000))"
  by code_simp

text \<open>What \<open>getPublicFile\<close> computes, in one equation: the comparison with \<open>now\<close> is
  strict.\<close>

lemma getPublicFile_eq:
  "getPublicFile now fileId s =
     (case getDoc (filesCol s) fileId of
        None \<Rightarrow> None
      | Some fd \<Rightarrow>
          if isPublic fd \<and> (case expiresAt fd of None \<Rightarrow> True | Some e \<Rightarrow> now \<le> e)
          then Some (fileId, fd) else None)"
  by (auto simp add: getPublicFile_def split: option.splits)

text \<open>
  C4. The claim: \<open>getPublicFile\<close> rejects a record whose \<open>expiresAt\<close> is \<open>\<le> now\<close>, the
  boundary instant included. The code tests \<open>now > expirationDate\<close>: at
  \<open>now = expiresAt = 5000\<close> the public record is returned, while \<open>getUserFiles\<close>, which
  keeps a record only if \<open>expiresAt > now\<close>, hides the same record from its owner at the
  same instant.
\<close>

theorem getPublicFile_serves_at_expiry_instant:
  "getPublicFile 5000 ''f1'' (store_with [(''f1'', report\<lparr>isPublic := True, expiresAt := Some 5000\<rparr>)])
     = Some (''f1'', report\<lparr>isPublic := True, expiresAt := Some 5000\<rparr>)
   \<and> getUserFiles 5000 ''alice''
        (store_with [(''f1'', report\<lparr>isPublic := True, expiresAt := Some 5000\<rparr>)]) = []"
  by (simp add: example_defs service_defs)


section \<open>Password verification\<close>









text \<open>
  C10. For a file id without a record, \<open>verifyFilePassword\<close> returns \<open>false\<close>: the
  'File not found' error is caught inside, so the answer is the one a wrong password
  gets.
\<close>

theorem verifyFilePassword_missing_file:
  assumes "getDoc (filesCol s) fileId = None"
  shows "verifyFilePassword s fileId pw = False"
  using assms by (simp add: verifyFilePassword_def)

theorem verifyFilePassword_missing_file_witness:
  "getDoc (filesCol (store_with [])) ''f1'' = None
   \<and> verifyFilePassword (store_with []) ''f1'' ''secret'' = False"
  using verifyFilePassword_missing_file [of "store_with []" "''f1''" "''secret''"]
  by (simp add: example_defs getDoc_def)


section \<open>The owner's listing\<close>

text \<open>
  C5, as amended. \<open>getUserFiles\<close> returns the owner's records without every record
  whose \<open>expiresAt\<close> is present and not after \<open>now\<close>, public or private (a private
  record with a past \<open>expiresAt\<close> is not listed), each kept record once, sorted by upload
  time, newest first.
\<close>

theorem getUserFiles_spec:
  "mset (getUserFiles now u s)
     = mset (filter (\<lambda>(i, d). userId d = u
                        \<and> (case expiresAt d of None \<Rightarrow> True | Some e \<Rightarrow> now < e))
               (filesCol s))
   \<and> sorted_wrt (\<lambda>a b. uploadedAt (snd a) \<ge> uploadedAt (snd b)) (getUserFiles now u s)"
proof -
  have "sorted (map (\<lambda>(i, file). - uploadedAt file) (getUserFiles now u s))"
    by (simp add: getUserFiles_def Let_def)
  then have "sorted_wrt (\<lambda>a b. uploadedAt (snd a) \<ge> uploadedAt (snd b)) (getUserFiles now u s)"
    by (simp add: sorted_wrt_map case_prod_beta)
  moreover have "mset (getUserFiles now u s)
     = mset (filter (\<lambda>(i, d). userId d = u
                        \<and> (case expiresAt d of None \<Rightarrow> True | Some e \<Rightarrow> now < e))
               (filesCol s))"
    by (simp add: getUserFiles_def Let_def case_prod_beta conj_commute)
  ultimately show ?thesis by simp
qed

theorem getUserFiles_spec_witness:
  "map fst (getUserFiles 2000 ''alice'' (store_with listing_files)) = [''f3'', ''f1'']
   \<and> sorted_wrt (\<lambda>a b. uploadedAt (snd a) \<ge> uploadedAt (snd b))
        (getUserFiles 2000 ''alice'' (store_with listing_files))"
  using getUserFiles_spec [of 2000 "''alice''" "store_with listing_files"]
  by (simp add: example_defs service_defs)

text \<open>
  The claim as stated fails: a private record of the owner whose \<open>expiresAt\<close> is in the
  past is not in the listing.
\<close>

theorem getUserFiles_hides_private_expired_counterexample:
  "\<not> isPublic (report\<lparr>expiresAt := Some 1500\<rparr>)
   \<and> userId (report\<lparr>expiresAt := Some 1500\<rparr>) = ''alice''
   \<and> getUserFiles 2000 ''alice'' (store_with [(''f1'', report\<lparr>expiresAt := Some 1500\<rparr>)]) = []"
  by (simp add: example_defs service_defs)


section \<open>The expiry reaper\<close>

text \<open>The sweep always returns the size of its query snapshot.\<close>

lemma cleanupExpiredFiles_count:
  "fst (cleanupExpiredFiles destroy now s) = length (expiredFilesQuery now s)"
  by (simp add: cleanupExpiredFiles_def Let_def)

text \<open>
  With Cloudinary answering, the scenario of three files runs as described: the sweep
  returns 1 and removes \<open>f2\<close> only, and the next sweep returns 0.
\<close>

lemma cleanupExpiredFiles_scenario:
  "fst (cleanupExpiredFiles online 2000 (store_with three_files)) = 1
   \<and> map fst (filesCol (snd (cleanupExpiredFiles online 2000 (store_with three_files))))
       = [''f1'', ''f3'']
   \<and> fst (cleanupExpiredFiles online 2000
            (snd (cleanupExpiredFiles online 2000 (store_with three_files)))) = 0"
  by (simp add: example_defs service_defs)

text \<open>
  C3. The claim: the sweep returns the number of records removed, and a second
  consecutive sweep returns 0. The code returns the size of the snapshot. With the same
  three files and Cloudinary out of reach, the delete of \<open>f2\<close> fails and is caught: the
  sweep returns 1 although no record was removed, and the next sweep returns 1 again.
\<close>

theorem cleanupExpiredFiles_counts_failed_deletes:
  "fst (cleanupExpiredFiles offline 2000 (store_with three_files)) = 1
   \<and> filesCol (snd (cleanupExpiredFiles offline 2000 (store_with three_files))) = three_files
   \<and> fst (cleanupExpiredFiles offline 2000
            (snd (cleanupExpiredFiles offline 2000 (store_with three_files)))) = 1"
  by (simp add: example_defs service_defs)
















end
